theory Spec2Isabelle
  imports Complex_Main "HOL-Library.Multiset" "HOL-Library.Product_Lexorder"
begin

section \<open>Data model\<close>

text \<open>
  The program is one script, \<^verbatim>\<open>revenue.py\<close>: it reads four sheets of a workbook, renames
  their columns, cleans the metric columns, merges the four tables on \<^verbatim>\<open>Year\<close>, fits a
  forecasting model on the revenue column and summarises the forecast per future year.
  Everything between \<^verbatim>\<open>try:\<close> and \<^verbatim>\<open>except Exception\<close> either runs to the end or
  raises; a raise is a value \<open>Inl e\<close> here, and the script has no exception class of its
  own, so the errors are the ones pandas, numpy and the forecasting library raise.
\<close>

datatype error =
    WorksheetNotFound string
    \<comment> \<open>\<^verbatim>\<open>xls.parse(name)\<close>: ValueError, no worksheet of that name\<close>
  | LengthMismatch nat nat
    \<comment> \<open>\<^verbatim>\<open>df.columns = [...]\<close>: ValueError, expected axis has n elements, new values have m\<close>
  | CouldNotConvert string
    \<comment> \<open>\<^verbatim>\<open>astype(float)\<close>: ValueError, could not convert string to float, with the string\<close>
  | OutOfBoundsDatetime int
    \<comment> \<open>\<^verbatim>\<open>pd.to_datetime(..., format='%Y')\<close>: the year has no nanosecond timestamp\<close>
  | ArgOfEmptySequence
    \<comment> \<open>\<^verbatim>\<open>idxmax\<close>/\<^verbatim>\<open>idxmin\<close>: ValueError, attempt to get argmax/argmin of an empty sequence\<close>
  | CannotConvertToInteger
    \<comment> \<open>\<^verbatim>\<open>int(x)\<close> on a float that is NaN or infinite\<close>
  | KeyError int
    \<comment> \<open>\<^verbatim>\<open>series[k]\<close> with a label that is not in the index\<close>
  | ServiceError string
    \<comment> \<open>whatever the forecasting library raises\<close>

text \<open>Sequencing of steps that may raise: the first error ends the run.\<close>

definition and_then :: "error + 'a \<Rightarrow> ('a \<Rightarrow> error + 'b) \<Rightarrow> error + 'b" where
  "and_then m f = (case m of Inl e \<Rightarrow> Inl e | Inr x \<Rightarrow> f x)"

text \<open>
  A metric cell as the workbook gives it: a string (possibly a formatted currency amount)
  or a number. Floating-point numbers are a type parameter \<open>'v\<close>; the operations of the
  numeric libraries on them are parameters too, collected in one record. Which strings
  \<^verbatim>\<open>float(s)\<close> accepts is not a parameter: it is the grammar of the section on cleaning,
  and the parameter is only the rounding of an accepted text to a floating-point number.
\<close>

datatype 'v cell = Str string | Num 'v

text \<open>
  What \<^verbatim>\<open>float(s)\<close> reads in an accepted string: a decimal number (negative or not, the
  digits before the point, the digits after it, the exponent of ten), an infinity
  (negative or not), or not-a-number.
\<close>

datatype float_text = Finite bool string string int | Infinity bool | NaN

record 'v float_ops =
  py_float :: "float_text \<Rightarrow> 'v"
    \<comment> \<open>the floating-point number \<^verbatim>\<open>float(s)\<close> returns for what it read in \<open>s\<close>\<close>
  np_mean :: "'v list \<Rightarrow> 'v"
    \<comment> \<open>the mean of a non-empty group\<close>
  np_round :: "'v \<Rightarrow> 'v"
    \<comment> \<open>\<^verbatim>\<open>round()\<close> to zero decimals\<close>
  py_int :: "'v \<Rightarrow> int option"
    \<comment> \<open>\<^verbatim>\<open>int(x)\<close>: \<open>None\<close> when it raises\<close>
  np_less :: "'v \<Rightarrow> 'v \<Rightarrow> bool"
    \<comment> \<open>the comparison of two numbers (no NaN among forecast values)\<close>

text \<open>
  A DataFrame as far as the loading step sees it: the column labels, and a body the
  renaming never touches. From the renaming on a table has the two columns
  \<^verbatim>\<open>Year\<close> and one metric, and its body is a list of rows (year, cell).
\<close>

record 'b frame =
  columns :: "string list"
  body :: 'b

type_synonym 'b workbook = "string \<rightharpoonup> 'b frame"


section \<open>Sheet loading and column renaming (lines 30--39)\<close>

definition parse :: "'b workbook \<Rightarrow> string \<Rightarrow> error + 'b frame" where
  "parse xls name =
     (case xls name of None \<Rightarrow> Inl (WorksheetNotFound name) | Some df \<Rightarrow> Inr df)"

text \<open>\<^verbatim>\<open>df.columns = names\<close>: the new labels must be as many as the columns.\<close>

definition set_columns :: "string list \<Rightarrow> 'b frame \<Rightarrow> error + 'b frame" where
  "set_columns names df =
     (if length (columns df) \<noteq> length names
      then Inl (LengthMismatch (length (columns df)) (length names))
      else Inr (df\<lparr>columns := names\<rparr>))"

definition revenue_sheet :: string where
  "revenue_sheet = ''Netflix annual revenue 2011 to ''"

definition subs_sheet :: string where
  "subs_sheet = ''Netflix annual subscribers 2011''"

definition content_sheet :: string where
  "content_sheet = ''Netflix annual content spend ($''"

definition income_sheet :: string where
  "income_sheet = ''Netflix annual net incomeloss (''"

definition load_sheets ::
  "'b workbook \<Rightarrow> error + ('b frame \<times> 'b frame \<times> 'b frame \<times> 'b frame)" where
  "load_sheets xls =
     and_then (parse xls revenue_sheet) (\<lambda>revenue_df.
     and_then (parse xls subs_sheet) (\<lambda>subs_df.
     and_then (parse xls content_sheet) (\<lambda>content_df.
     and_then (parse xls income_sheet) (\<lambda>income_df.
     and_then (set_columns [''Year'', ''Revenue ($)''] revenue_df) (\<lambda>revenue_df.
     and_then (set_columns [''Year'', ''Subscribers''] subs_df) (\<lambda>subs_df.
     and_then (set_columns [''Year'', ''Content Spend ($)''] content_df) (\<lambda>content_df.
     and_then (set_columns [''Year'', ''Net Income ($)''] income_df) (\<lambda>income_df.
     Inr (revenue_df, subs_df, content_df, income_df)))))))))"


section \<open>Currency cleaning (lines 42--48)\<close>

text \<open>\<^verbatim>\<open>re.sub('[\$,]', '', s)\<close>: every dollar sign and every comma is dropped.\<close>

fun re_sub_currency :: "string \<Rightarrow> string" where
  "re_sub_currency [] = []"
| "re_sub_currency (c # cs) =
     (if c = CHR ''$'' \<or> c = CHR '','' then re_sub_currency cs else c # re_sub_currency cs)"

text \<open>\<^verbatim>\<open>col.replace(..., regex=True)\<close> rewrites the string cells and leaves numbers alone.\<close>

fun replace_regex :: "'v cell \<Rightarrow> 'v cell" where
  "replace_regex (Str s) = Str (re_sub_currency s)"
| "replace_regex (Num v) = Num v"

text \<open>
  \<^verbatim>\<open>float(s)\<close> on a string, as the interpreter does it. Characters are code points below 256.
  A character from 127 on is turned into a space when it is a space (133 and 160), and
  makes the string invalid otherwise.
\<close>

fun to_ascii :: "string \<Rightarrow> string option" where
  "to_ascii [] = Some []"
| "to_ascii (c # cs) =
     (let n = (of_char c :: nat) in
      if n < 127 then map_option ((#) c) (to_ascii cs)
      else if n = 133 \<or> n = 160 then map_option ((#) CHR '' '') (to_ascii cs)
      else None)"

definition is_digit :: "char \<Rightarrow> bool" where
  "is_digit c = (48 \<le> (of_char c :: nat) \<and> (of_char c :: nat) \<le> 57)"

definition is_space :: "char \<Rightarrow> bool" where
  "is_space c = ((of_char c :: nat) \<in> {9, 10, 11, 12, 13, 32})"

text \<open>An underscore is allowed only between two digits; \<open>prev\<close> is the character before.\<close>

fun underscores_ok :: "char \<Rightarrow> string \<Rightarrow> bool" where
  "underscores_ok prev [] = (prev \<noteq> CHR ''_'')"
| "underscores_ok prev (c # cs) =
     (if c = CHR ''_'' then is_digit prev \<and> underscores_ok c cs
      else (prev = CHR ''_'' \<longrightarrow> is_digit c) \<and> underscores_ok c cs)"

text \<open>Leading and trailing white space is dropped.\<close>

definition strip :: "string \<Rightarrow> string" where
  "strip s = rev (dropWhile is_space (rev (dropWhile is_space s)))"

definition to_lower :: "char \<Rightarrow> char" where
  "to_lower c = (let n = (of_char c :: nat) in if 65 \<le> n \<and> n \<le> 90 then char_of (n + 32) else c)"

definition nat_of_digits :: "string \<Rightarrow> nat" where
  "nat_of_digits ds = fold (\<lambda>c n. 10 * n + ((of_char c :: nat) - 48)) ds 0"

text \<open>The exponent after \<^verbatim>\<open>e\<close> or \<^verbatim>\<open>E\<close>: an optional sign and at least one digit.\<close>

definition digits_text :: "string \<Rightarrow> nat option" where
  "digits_text ds = (if ds \<noteq> [] \<and> list_all is_digit ds then Some (nat_of_digits ds) else None)"

definition exponent_text :: "string \<Rightarrow> int option" where
  "exponent_text r =
     (case r of
        [] \<Rightarrow> None
      | c # ds \<Rightarrow>
          if c = CHR ''-'' then map_option (\<lambda>n. - int n) (digits_text ds)
          else if c = CHR ''+'' then map_option int (digits_text ds)
          else map_option int (digits_text r))"

text \<open>The digits after a point, and what follows them.\<close>

definition fraction_text :: "string \<Rightarrow> string \<times> string" where
  "fraction_text r =
     (case r of
        [] \<Rightarrow> ([], [])
      | c # rest \<Rightarrow>
          if c = CHR ''.'' then (takeWhile is_digit rest, dropWhile is_digit rest) else ([], r))"

text \<open>
  A number: digits, an optional point and digits, at least one digit in all, and an
  optional exponent; nothing may follow.
\<close>

definition number_text :: "bool \<Rightarrow> string \<Rightarrow> float_text option" where
  "number_text neg t =
     (let ip = takeWhile is_digit t;
          (fp, r) = fraction_text (dropWhile is_digit t)
      in if ip = [] \<and> fp = [] then None
         else (case r of
                 [] \<Rightarrow> Some (Finite neg ip fp 0)
               | c # ex \<Rightarrow>
                   if c = CHR ''e'' \<or> c = CHR ''E''
                   then map_option (Finite neg ip fp) (exponent_text ex)
                   else None))"

text \<open>After the sign: \<^verbatim>\<open>inf\<close>, \<^verbatim>\<open>infinity\<close> or \<^verbatim>\<open>nan\<close> in any case of letters, or a number.\<close>

definition unsigned_text :: "bool \<Rightarrow> string \<Rightarrow> float_text option" where
  "unsigned_text neg u =
     (let low = map to_lower u in
      if low = ''inf'' \<or> low = ''infinity'' then Some (Infinity neg)
      else if low = ''nan'' then Some NaN
      else number_text neg u)"

text \<open>\<open>None\<close> is the ValueError of \<^verbatim>\<open>float(s)\<close>.\<close>

definition parse_float_text :: "string \<Rightarrow> float_text option" where
  "parse_float_text s =
     (case to_ascii s of
        None \<Rightarrow> None
      | Some a \<Rightarrow>
          if \<not> underscores_ok (CHR 0x00) a then None
          else (case strip (filter (\<lambda>c. c \<noteq> CHR ''_'') a) of
                  [] \<Rightarrow> None
                | c # u \<Rightarrow>
                    if c = CHR ''-'' then unsigned_text True u
                    else if c = CHR ''+'' then unsigned_text False u
                    else unsigned_text False (c # u)))"

fun to_float :: "('v, 'x) float_ops_scheme \<Rightarrow> 'v cell \<Rightarrow> error + 'v" where
  "to_float ops (Num v) = Inr v"
| "to_float ops (Str s) =
     (case parse_float_text s of
        None \<Rightarrow> Inl (CouldNotConvert s)
      | Some t \<Rightarrow> Inr (py_float ops t))"

text \<open>\<^verbatim>\<open>astype(float)\<close> converts cell by cell, in order, and raises at the first failure.\<close>

fun astype_float :: "('v, 'x) float_ops_scheme \<Rightarrow> 'v cell list \<Rightarrow> error + 'v list" where
  "astype_float ops [] = Inr []"
| "astype_float ops (c # cs) =
     and_then (to_float ops c) (\<lambda>v.
     and_then (astype_float ops cs) (\<lambda>vs. Inr (v # vs)))"

definition clean_currency :: "('v, 'x) float_ops_scheme \<Rightarrow> 'v cell list \<Rightarrow> error + 'v list" where
  "clean_currency ops col = astype_float ops (map replace_regex col)"

text \<open>
  \<^verbatim>\<open>df[metric] = clean_currency(df[metric])\<close>: the metric column is replaced by the cleaned
  one, the \<^verbatim>\<open>Year\<close> column stays.
\<close>

definition clean_column ::
  "('v, 'x) float_ops_scheme \<Rightarrow> (int \<times> 'v cell) list frame \<Rightarrow> error + (int \<times> 'v) list" where
  "clean_column ops df =
     and_then (clean_currency ops (map snd (body df))) (\<lambda>vs.
     Inr (zip (map fst (body df)) vs))"


section \<open>Merging (lines 51--53)\<close>

text \<open>
  \<^verbatim>\<open>left.merge(right, on='Year')\<close> is an inner join that keeps the order of the left rows:
  each left row is paired with every right row of the same year, in the right table's
  order. There is no \<^verbatim>\<open>validate=\<close> argument and no sort.
\<close>

definition merge_on_year :: "(int \<times> 'a) list \<Rightarrow> (int \<times> 'b) list \<Rightarrow> (int \<times> 'a \<times> 'b) list" where
  "merge_on_year left right =
     concat (map (\<lambda>(k, a). map (\<lambda>(k', b). (k, a, b)) (filter (\<lambda>(k', b). k' = k) right)) left)"

text \<open>A merged row: (Year, ((Revenue, Subscribers), Content Spend), Net Income).\<close>

type_synonym 'v merged = "int \<times> (('v \<times> 'v) \<times> 'v) \<times> 'v"

definition merge_all ::
  "(int \<times> 'v) list \<Rightarrow> (int \<times> 'v) list \<Rightarrow> (int \<times> 'v) list \<Rightarrow> (int \<times> 'v) list \<Rightarrow> 'v merged list" where
  "merge_all revenue_df subs_df content_df income_df =
     merge_on_year (merge_on_year (merge_on_year revenue_df subs_df) content_df) income_df"

definition years :: "(int \<times> 'a) list \<Rightarrow> int list" where
  "years df = map fst df"

definition revenue :: "'v merged \<Rightarrow> 'v" where
  "revenue row = fst (fst (fst (snd row)))"


text \<open>Lines 30--53 together: the reconciled table, or the first error.\<close>

definition reconcile ::
  "('v, 'x) float_ops_scheme \<Rightarrow> (int \<times> 'v cell) list workbook \<Rightarrow> error + 'v merged list" where
  "reconcile ops xls =
     and_then (load_sheets xls) (\<lambda>(revenue_df, subs_df, content_df, income_df).
     and_then (clean_column ops revenue_df) (\<lambda>revenue_df.
     and_then (clean_column ops subs_df) (\<lambda>subs_df.
     and_then (clean_column ops content_df) (\<lambda>content_df.
     and_then (clean_column ops income_df) (\<lambda>income_df.
     Inr (merge_all revenue_df subs_df content_df income_df))))))"


section \<open>Time series (lines 64--67)\<close>

text \<open>
  A calendar date is a year and a day of that year, counted from 0 (January 1). Dates are
  ordered by year, then by day.
\<close>

type_synonym date = "int \<times> nat"

definition year_of :: "date \<Rightarrow> int" where
  "year_of d = fst d"

text \<open>
  \<^verbatim>\<open>pd.to_datetime(year, format='%Y')\<close>: January 1 of the year; a year outside the range of
  nanosecond timestamps (1677-09-21 to 2262-04-11) raises.
\<close>

definition to_datetime :: "int \<Rightarrow> error + date" where
  "to_datetime y = (if 1678 \<le> y \<and> y \<le> 2262 then Inr (y, 0) else Inl (OutOfBoundsDatetime y))"

fun prophet_df :: "'v merged list \<Rightarrow> error + (date \<times> 'v) list" where
  "prophet_df [] = Inr []"
| "prophet_df (row # df) =
     and_then (to_datetime (fst row)) (\<lambda>d.
     and_then (prophet_df df) (\<lambda>rest. Inr ((d, revenue row) # rest)))"


section \<open>Forecasting (lines 70--77)\<close>

text \<open>
  The forecasting library is a collaborator: a model is fitted on the history, asked for
  the frame of dates to predict, and asked for the prediction. Each of the three calls is
  a parameter and may raise. A forecast row is \<^verbatim>\<open>ds\<close>, \<^verbatim>\<open>yhat\<close>, \<^verbatim>\<open>yhat_lower\<close>,
  \<^verbatim>\<open>yhat_upper\<close>.
\<close>

record 'v forecast_row =
  ds :: date
  yhat :: 'v
  yhat_lower :: 'v
  yhat_upper :: 'v

record ('m, 'v) forecaster =
  fit :: "(date \<times> 'v) list \<Rightarrow> error + 'm"
  make_future_dataframe :: "'m \<Rightarrow> int \<Rightarrow> error + date list"
  predict :: "'m \<Rightarrow> date list \<Rightarrow> error + 'v forecast_row list"

text \<open>The calls made to the forecasting library, in order, with their arguments.\<close>

datatype 'v call = Fit "(date \<times> 'v) list" | MakeFuture int | Predict "date list"

text \<open>
  \<^verbatim>\<open>forecast_years = st.slider(..., 1, 10, 5)\<close>: the slider returns a whole number between its
  minimum 1 and its maximum 10, and nothing else can reach the next line. The values of
  the slider are a type of their own; \<open>years_ahead\<close> is the integer.
\<close>

typedef horizon = "{1 .. 10 :: int}"
  morphisms years_ahead Horizon
  by auto

text \<open>\<^verbatim>\<open>periods = forecast_years * 365\<close>. The script compares the horizon with nothing.\<close>

definition run_forecast ::
  "('m, 'v, 'y) forecaster_scheme \<Rightarrow> (date \<times> 'v) list \<Rightarrow> horizon \<Rightarrow>
     'v call list \<times> (error + 'v forecast_row list)" where
  "run_forecast svc history forecast_years =
     (let periods = years_ahead forecast_years * 365 in
      case fit svc history of
        Inl e \<Rightarrow> ([Fit history], Inl e)
      | Inr model \<Rightarrow>
          (case make_future_dataframe svc model periods of
             Inl e \<Rightarrow> ([Fit history, MakeFuture periods], Inl e)
           | Inr future \<Rightarrow>
               ([Fit history, MakeFuture periods, Predict future], predict svc model future)))"


section \<open>Insights (lines 86--108)\<close>

text \<open>\<^verbatim>\<open>df['Year'].max()\<close>: the greatest year; NaN (here \<open>None\<close>) for an empty column.\<close>

fun series_max :: "int list \<Rightarrow> int option" where
  "series_max [] = None"
| "series_max (y # ys) = Some (fold max ys y)"

text \<open>\<^verbatim>\<open>forecast_out[forecast_out['Year'] > latest_year]\<close>: no year is greater than NaN.\<close>

definition future_forecast :: "'v forecast_row list \<Rightarrow> int option \<Rightarrow> 'v forecast_row list" where
  "future_forecast forecast_out latest_year =
     filter (\<lambda>r. case latest_year of None \<Rightarrow> False | Some l \<Rightarrow> year_of (ds r) > l) forecast_out"

text \<open>
  \<^verbatim>\<open>groupby('Year')['yhat'].mean().round()\<close>: one entry per year that has a row, the years
  ascending, each with the rounded mean of the \<^verbatim>\<open>yhat\<close> of its rows in their order.
\<close>

definition group_years :: "'v forecast_row list \<Rightarrow> int list" where
  "group_years rows = sort (remdups (map (\<lambda>r. year_of (ds r)) rows))"

definition annual_pred ::
  "('v, 'x) float_ops_scheme \<Rightarrow> 'v forecast_row list \<Rightarrow> (int \<times> 'v) list" where
  "annual_pred ops rows =
     map (\<lambda>y. (y, np_round ops (np_mean ops (map yhat (filter (\<lambda>r. year_of (ds r) = y) rows)))))
       (group_years rows)"

text \<open>\<^verbatim>\<open>series[k]\<close> and \<^verbatim>\<open>int(x)\<close>.\<close>

definition series_get :: "(int \<times> 'v) list \<Rightarrow> int \<Rightarrow> error + 'v" where
  "series_get s k = (case map_of s k of None \<Rightarrow> Inl (KeyError k) | Some v \<Rightarrow> Inr v)"

definition to_int :: "('v, 'x) float_ops_scheme \<Rightarrow> 'v \<Rightarrow> error + int" where
  "to_int ops v = (case py_int ops v of None \<Rightarrow> Inl CannotConvertToInteger | Some n \<Rightarrow> Inr n)"

text \<open>
  \<^verbatim>\<open>idxmax()\<close> and \<^verbatim>\<open>idxmin()\<close>: the label of the first greatest (least) value; they raise
  on an empty series.
\<close>

definition idxmax :: "('v, 'x) float_ops_scheme \<Rightarrow> (int \<times> 'v) list \<Rightarrow> error + int" where
  "idxmax ops s =
     (case s of
        [] \<Rightarrow> Inl ArgOfEmptySequence
      | p # ps \<Rightarrow> Inr (fst (fold (\<lambda>q best. if np_less ops (snd best) (snd q) then q else best) ps p)))"

definition idxmin :: "('v, 'x) float_ops_scheme \<Rightarrow> (int \<times> 'v) list \<Rightarrow> error + int" where
  "idxmin ops s =
     (case s of
        [] \<Rightarrow> Inl ArgOfEmptySequence
      | p # ps \<Rightarrow> Inr (fst (fold (\<lambda>q best. if np_less ops (snd q) (snd best) then q else best) ps p)))"

text \<open>What the three \<^verbatim>\<open>st.markdown\<close> lines show: a year and the integer shown for it.\<close>

record 'v insights =
  annual :: "(int \<times> 'v) list"
  next_year_prediction :: "(int \<times> int) option"
  highest :: "int \<times> int"
  lowest :: "int \<times> int"

text \<open>Lines 98--101: the next year's line is written only when the year is in the index.\<close>

definition next_year_line ::
  "('v, 'x) float_ops_scheme \<Rightarrow> (int \<times> 'v) list \<Rightarrow> int option \<Rightarrow> error + (int \<times> int) option" where
  "next_year_line ops s latest_year =
     (case latest_year of
        None \<Rightarrow> Inr None
      | Some l \<Rightarrow>
          (let next_year = l + 1 in
           if next_year \<in> set (years s)
           then and_then (series_get s next_year) (\<lambda>v.
                and_then (to_int ops v) (\<lambda>n. Inr (Some (next_year, n))))
           else Inr None))"

definition extract_insights ::
  "('v, 'x) float_ops_scheme \<Rightarrow> 'v forecast_row list \<Rightarrow> int option \<Rightarrow> error + 'v insights" where
  "extract_insights ops forecast_out latest_year =
     (let s = annual_pred ops (future_forecast forecast_out latest_year) in
      and_then (next_year_line ops s latest_year) (\<lambda>next_line.
      and_then (idxmax ops s) (\<lambda>max_year.
      and_then (idxmin ops s) (\<lambda>min_year.
      and_then (series_get s max_year) (\<lambda>v.
      and_then (to_int ops v) (\<lambda>hi.
      and_then (series_get s min_year) (\<lambda>w.
      and_then (to_int ops w) (\<lambda>lo.
      Inr \<lparr>annual = s, next_year_prediction = next_line,
           highest = (max_year, hi), lowest = (min_year, lo)\<rparr>))))))))"


section \<open>The whole run\<close>

text \<open>
  The run returns the calls it made to the forecasting library together with its
  outcome: the reconciled table, the forecast and the insights, or the first error. The
  charts and the download button show these values and are not part of the model.
\<close>

definition run ::
  "('v, 'x) float_ops_scheme \<Rightarrow> ('m, 'v, 'y) forecaster_scheme \<Rightarrow> (int \<times> 'v cell) list workbook \<Rightarrow>
     horizon \<Rightarrow> 'v call list \<times> (error + 'v merged list \<times> 'v forecast_row list \<times> 'v insights)" where
  "run ops svc xls forecast_years =
     (case reconcile ops xls of
        Inl e \<Rightarrow> ([], Inl e)
      | Inr df \<Rightarrow>
          (case prophet_df df of
             Inl e \<Rightarrow> ([], Inl e)
           | Inr history \<Rightarrow>
               (case run_forecast svc history forecast_years of
                  (calls, Inl e) \<Rightarrow> (calls, Inl e)
                | (calls, Inr forecast) \<Rightarrow>
                    (calls,
                     and_then (extract_insights ops forecast (series_max (years df))) (\<lambda>ins.
                     Inr (df, forecast, ins))))))"


section \<open>A forecaster and number operations to run the model on\<close>

text \<open>
  Modelled from the spec: the forecasting library is not part of the repository. The
  spec's contract for it is that it takes the observations and a horizon in days and
  returns a row for every date of the history and of the horizon that follows the last
  observation, day by day; and that it needs at least two observations to fit. The
  forecaster below does that, with the same estimate \<open>level\<close> on every date. It is used
  only to run the model on concrete inputs.
\<close>

definition is_leap :: "int \<Rightarrow> bool" where
  "is_leap y = (y mod 4 = 0 \<and> (y mod 100 \<noteq> 0 \<or> y mod 400 = 0))"

definition days_in_year :: "int \<Rightarrow> nat" where
  "days_in_year y = (if is_leap y then 366 else 365)"

definition next_day :: "date \<Rightarrow> date" where
  "next_day d = (if snd d + 1 < days_in_year (fst d) then (fst d, snd d + 1) else (fst d + 1, 0))"

fun days_after :: "date \<Rightarrow> nat \<Rightarrow> date list" where
  "days_after d 0 = []"
| "days_after d (Suc n) = next_day d # days_after (next_day d) n"

definition daily_forecaster :: "'v \<Rightarrow> (date list, 'v) forecaster" where
  "daily_forecaster level =
     \<lparr>fit = (\<lambda>history.
        if length history < 2 then Inl (ServiceError ''Dataframe has less than 2 non-NaN rows.'')
        else Inr (sort (remdups (map fst history)))),
      make_future_dataframe = (\<lambda>history_dates periods.
        Inr (history_dates @ days_after (last history_dates) (nat periods))),
      predict = (\<lambda>history_dates future.
        Inr (map (\<lambda>d. \<lparr>ds = d, yhat = level, yhat_lower = level, yhat_upper = level\<rparr>) future))\<rparr>"

text \<open>
  Number operations on exact reals, for the same use. They stand for the floating-point
  operations wherever those are exact: a decimal text is the number it writes, the mean
  is the sum over the count, rounding is to the nearest integer with ties to the even
  one, and conversion to an integer truncates. The reals have no infinity and no
  not-a-number; the operations are not used on such texts.
\<close>

definition exact_value :: "float_text \<Rightarrow> real" where
  "exact_value t =
     (case t of
        Finite neg ip fp e \<Rightarrow>
          (let m = real (nat_of_digits (ip @ fp));
               k = e - int (length fp);
               x = (if 0 \<le> k then m * 10 ^ nat k else m / 10 ^ nat (- k))
           in if neg then - x else x)
      | Infinity neg \<Rightarrow> 0
      | NaN \<Rightarrow> 0)"

definition round_half_even :: "real \<Rightarrow> int" where
  "round_half_even x =
     (let f = \<lfloor>x\<rfloor> in
      if x - real_of_int f < 1 / 2 then f
      else if 1 / 2 < x - real_of_int f then f + 1
      else if even f then f else f + 1)"

definition exact_ops :: "real float_ops" where
  "exact_ops =
     \<lparr>py_float = exact_value,
      np_mean = (\<lambda>xs. sum_list xs / real (length xs)),
      np_round = (\<lambda>x. real_of_int (round_half_even x)),
      py_int = (\<lambda>x. Some (if x < 0 then - \<lfloor>- x\<rfloor> else \<lfloor>x\<rfloor>)),
      np_less = (\<lambda>x y. x < y)\<rparr>"

text \<open>A workbook with the four sheets, for the years 2019 and 2020.\<close>

definition example_workbook :: "(int \<times> real cell) list workbook" where
  "example_workbook =
     [revenue_sheet \<mapsto> \<lparr>columns = [''Year'', ''Revenue''],
                         body = [(2019, Str ''$20,156''), (2020, Str ''$24,996'')]\<rparr>,
      subs_sheet \<mapsto> \<lparr>columns = [''Year'', ''Subscribers''],
                      body = [(2019, Num 167), (2020, Num 203)]\<rparr>,
      content_sheet \<mapsto> \<lparr>columns = [''Year'', ''Spend''],
                         body = [(2019, Str ''13,900''), (2020, Str ''11,800'')]\<rparr>,
      income_sheet \<mapsto> \<lparr>columns = [''Year'', ''Income''],
                        body = [(2019, Str ''$1,867''), (2020, Str ''$2,761'')]\<rparr>]"


section \<open>Properties of the merge\<close>

lemma years_merge_on_year:
  "years (merge_on_year l r) = concat (map (\<lambda>k. replicate (count_list (years r) k) k) (years l))"
proof (induction l)
  case Nil
  then show ?case by (simp add: merge_on_year_def years_def)
next
  case (Cons p l)
  obtain k a where p: "p = (k, a)" by (cases p)
  have "map fst (map (\<lambda>(k', b). (k, a, b)) (filter (\<lambda>(k', b). k' = k) r)) = replicate (count_list (map fst r) k) k"
    by (induction r) auto
  with Cons p show ?case by (simp add: merge_on_year_def years_def)
qed

lemma count_list_replicate: "count_list (replicate n x) y = (if x = y then n else 0)"
  by (induction n) auto

lemma count_list_concat_replicate:
  "count_list (concat (map (\<lambda>k. replicate (f k) k) xs)) y = count_list xs y * f y"
  by (induction xs) (auto simp: count_list_replicate)

lemma count_years_merge_on_year:
  "count_list (years (merge_on_year l r)) k = count_list (years l) k * count_list (years r) k"
  by (simp add: years_merge_on_year count_list_concat_replicate)

lemma distinct_count_list_le: "distinct xs \<longleftrightarrow> (\<forall>x. count_list xs x \<le> 1)"
proof (induction xs)
  case Nil
  then show ?case by simp
next
  case (Cons a xs)
  show ?case
  proof
    assume d: "distinct (a # xs)"
    then have "a \<notin> set xs" and "\<forall>x. count_list xs x \<le> 1" using Cons by auto
    then show "\<forall>x. count_list (a # xs) x \<le> 1" by (auto simp: count_list_0_iff)
  next
    assume c: "\<forall>x. count_list (a # xs) x \<le> 1"
    then have "count_list (a # xs) a \<le> 1" by blast
    then have "count_list xs a = 0" by simp
    then have 1: "a \<notin> set xs" by (simp add: count_list_0_iff)
    have "\<forall>x. count_list xs x \<le> 1"
    proof
      fix x show "count_list xs x \<le> 1" using c [rule_format, of x] by (simp split: if_splits)
    qed
    with 1 Cons show "distinct (a # xs)" by simp
  qed
qed

lemma set_count_list: "x \<in> set xs \<longleftrightarrow> 0 < count_list xs x"
  using count_list_0_iff [of xs x] by auto

lemma set_years_merge_on_year:
  "set (years (merge_on_year l r)) = set (years l) \<inter> set (years r)"
  by (auto simp: set_count_list count_years_merge_on_year)

lemma distinct_years_merge_on_year:
  assumes "distinct (years l)" "distinct (years r)"
  shows "distinct (years (merge_on_year l r))"
proof -
  have "count_list (years (merge_on_year l r)) k \<le> 1" for k
  proof -
    have "count_list (years l) k \<le> 1" "count_list (years r) k \<le> 1"
      using assms by (simp_all add: distinct_count_list_le)
    then have "count_list (years l) k * count_list (years r) k \<le> 1 * 1"
      by (rule mult_le_mono)
    then show ?thesis by (simp add: count_years_merge_on_year)
  qed
  then show ?thesis by (simp add: distinct_count_list_le)
qed

lemma set_merge_on_year:
  "(k, a, b) \<in> set (merge_on_year l r) \<longleftrightarrow> (k, a) \<in> set l \<and> (k, b) \<in> set r"
  by (force simp: merge_on_year_def)

lemma set_merge_all:
  "(k, ((r, s), c), i) \<in> set (merge_all R S C I) \<longleftrightarrow>
     (k, r) \<in> set R \<and> (k, s) \<in> set S \<and> (k, c) \<in> set C \<and> (k, i) \<in> set I"
  by (simp add: merge_all_def set_merge_on_year)

lemma concat_replicate_filter:
  "(\<And>k. k \<in> set xs \<Longrightarrow> f k = (if P k then 1 else 0)) \<Longrightarrow>
   concat (map (\<lambda>k. replicate (f k) k) xs) = filter P xs"
  by (induction xs) auto

lemma count_list_distinct: "distinct xs \<Longrightarrow> count_list xs x = (if x \<in> set xs then 1 else 0)"
  by (induction xs) auto

lemma years_merge_on_year_filter:
  "distinct (years r) \<Longrightarrow>
   years (merge_on_year l r) = filter (\<lambda>k. k \<in> set (years r)) (years l)"
  by (simp add: years_merge_on_year concat_replicate_filter count_list_distinct)

lemma sorted_concat_replicate:
  "sorted xs \<Longrightarrow> sorted (concat (map (\<lambda>k. replicate (f k) k) xs))"
  by (induction xs) (auto simp: sorted_append)

lemma sorted_years_merge_on_year:
  "sorted (years l) \<Longrightarrow> sorted (years (merge_on_year l r))"
  by (simp add: years_merge_on_year sorted_concat_replicate)

lemma filter_year_map_of:
  "distinct (map fst r) \<Longrightarrow>
   filter (\<lambda>(k', b). k' = k) r = (case map_of r k of None \<Rightarrow> [] | Some b \<Rightarrow> [(k, b)])"
proof (induction r)
  case Nil
  then show ?case by simp
next
  case (Cons p r)
  obtain k' b where p: "p = (k', b)" by (cases p)
  show ?case
  proof (cases "k' = k")
    case True
    with Cons.prems p have "k \<notin> fst ` set r" by simp
    then have "filter (\<lambda>(k', b). k' = k) r = []" by (force simp: filter_empty_conv)
    with True p show ?thesis by simp
  next
    case False
    with Cons p show ?thesis by simp
  qed
qed

lemma merge_on_year_map_of:
  "distinct (years r) \<Longrightarrow>
   merge_on_year l r =
     concat (map (\<lambda>(k, a). case map_of r k of None \<Rightarrow> [] | Some b \<Rightarrow> [(k, a, b)]) l)"
proof -
  assume d: "distinct (years r)"
  have "map (\<lambda>(k', b). (k, a, b)) (filter (\<lambda>(k', b). k' = k) r) =
        (case map_of r k of None \<Rightarrow> [] | Some b \<Rightarrow> [(k, a, b)])" for k and a :: 'b
    using d by (simp add: years_def filter_year_map_of split: option.splits)
  then show ?thesis by (simp add: merge_on_year_def)
qed

lemma map_of_mset_eq:
  assumes "mset r' = mset r" "distinct (years r)"
  shows "map_of r' = map_of r"
proof -
  have "mset (map fst r') = mset (map fst r)" using assms(1) by simp
  then have "distinct (map fst r')" using assms(2) mset_eq_imp_distinct_iff [of "map fst r'" "map fst r"] by (simp add: years_def)
  moreover have "set r' = set r" using assms(1) by (rule mset_eq_setD)
  ultimately show ?thesis using assms(2) map_of_inject_set [of r' r] by (simp add: years_def)
qed

lemma merge_on_year_perm:
  assumes "mset r' = mset r" "distinct (years r)"
  shows "merge_on_year l r' = merge_on_year l r"
proof -
  have "mset (years r') = mset (years r)" using assms(1) by (simp add: years_def)
  then have "distinct (years r')" using assms(2) mset_eq_imp_distinct_iff [of "years r'" "years r"] by simp
  then have "merge_on_year l r' =
     concat (map (\<lambda>(k, a). case map_of r' k of None \<Rightarrow> [] | Some b \<Rightarrow> [(k, a, b)]) l)"
    by (rule merge_on_year_map_of)
  also have "map_of r' = map_of r" using assms by (rule map_of_mset_eq)
  also have "concat (map (\<lambda>(k, a). case map_of r k of None \<Rightarrow> [] | Some b \<Rightarrow> [(k, a, b)]) l) =
     merge_on_year l r"
    using assms(2) by (rule merge_on_year_map_of [symmetric])
  finally show ?thesis .
qed

lemma years_merge_all_filter:
  assumes "distinct (years subs_df)" "distinct (years content_df)" "distinct (years income_df)"
  shows "years (merge_all revenue_df subs_df content_df income_df) =
           filter (\<lambda>k. k \<in> set (years subs_df) \<and> k \<in> set (years content_df) \<and>
                       k \<in> set (years income_df)) (years revenue_df)"
proof -
  have "filter (\<lambda>k. k \<in> set (years income_df))
          (filter (\<lambda>k. k \<in> set (years content_df))
            (filter (\<lambda>k. k \<in> set (years subs_df)) (years revenue_df))) =
        filter (\<lambda>k. k \<in> set (years subs_df) \<and> k \<in> set (years content_df) \<and>
                       k \<in> set (years income_df)) (years revenue_df)"
    by (induction revenue_df) (auto simp: years_def)
  then show ?thesis
    using assms by (simp add: merge_all_def years_merge_on_year_filter)
qed

lemma merge_all_perm:
  assumes "distinct (years subs_df)" "distinct (years content_df)" "distinct (years income_df)"
    and "mset subs_df' = mset subs_df" "mset content_df' = mset content_df"
    "mset income_df' = mset income_df"
  shows "merge_all revenue_df subs_df' content_df' income_df' =
           merge_all revenue_df subs_df content_df income_df"
proof -
  have 1: "merge_on_year revenue_df subs_df' = merge_on_year revenue_df subs_df"
    using assms(4) assms(1) by (rule merge_on_year_perm)
  have 2: "merge_on_year x content_df' = merge_on_year x content_df" for x :: "(int \<times> 'a \<times> 'a) list"
    using assms(5) assms(2) by (rule merge_on_year_perm)
  have 3: "merge_on_year x income_df' = merge_on_year x income_df" for x :: "(int \<times> ('a \<times> 'a) \<times> 'a) list"
    using assms(6) assms(3) by (rule merge_on_year_perm)
  show ?thesis unfolding merge_all_def 1 2 3 ..
qed

text \<open>
  C1 (as amended). The merge has no check for a repeated key and never raises: a year that
  occurs several times in the tables occurs in the output as many times as the product
  of its numbers of occurrences in the four tables, so a year repeated in one table and
  present in the others is fanned out.
\<close>

theorem merge_all_fan_out:
  "count_list (years (merge_all revenue_df subs_df content_df income_df)) k =
     count_list (years revenue_df) k * count_list (years subs_df) k *
     count_list (years content_df) k * count_list (years income_df) k"
  by (simp add: merge_all_def count_years_merge_on_year)

text \<open>
  C1 as stated fails: with 2020 twice in the subscribers table the merge returns two
  joined rows for 2020 instead of failing.
\<close>

theorem merge_all_duplicate_key_counterexample:
  "\<not> distinct (years [(2020, 203), (2020, 204::real)]) \<and>
   merge_all [(2020, 24996::real)] [(2020, 203), (2020, 204)] [(2020, 11800)] [(2020, 2761)] =
     [(2020, ((24996, 203), 11800), 2761), (2020, ((24996, 204), 11800), 2761)]"
  by (simp add: merge_all_def merge_on_year_def years_def)

text \<open>
  C2. When no table repeats a year, the years of the merged table are exactly the years
  present in all four tables, each once, and every merged row carries the values its
  year has in the four tables (no value is filled in).
\<close>

theorem merge_all_intersection:
  assumes "distinct (years revenue_df)" "distinct (years subs_df)"
    "distinct (years content_df)" "distinct (years income_df)"
  shows "set (years (merge_all revenue_df subs_df content_df income_df)) =
           set (years revenue_df) \<inter> set (years subs_df) \<inter>
           set (years content_df) \<inter> set (years income_df) \<and>
         distinct (years (merge_all revenue_df subs_df content_df income_df)) \<and>
         (\<forall>k r s c i. (k, ((r, s), c), i) \<in> set (merge_all revenue_df subs_df content_df income_df) \<longleftrightarrow>
            (k, r) \<in> set revenue_df \<and> (k, s) \<in> set subs_df \<and>
            (k, c) \<in> set content_df \<and> (k, i) \<in> set income_df)"
  using assms
  by (simp add: merge_all_def set_years_merge_on_year distinct_years_merge_on_year set_merge_on_year)

theorem merge_all_intersection_witness:
  "distinct (years [(2019, 20156), (2020, 24996), (2021, 29698::real)]) \<and>
   distinct (years [(2019, 167), (2020, 203::real)]) \<and>
   distinct (years [(2020, 11800), (2021, 17000::real)]) \<and>
   distinct (years [(2019, 1867), (2020, 2761), (2021, 5116::real)]) \<and>
   set (years (merge_all [(2019, 20156), (2020, 24996), (2021, 29698::real)]
                 [(2019, 167), (2020, 203)] [(2020, 11800), (2021, 17000)]
                 [(2019, 1867), (2020, 2761), (2021, 5116)])) = {2020} \<and>
   distinct (years (merge_all [(2019, 20156), (2020, 24996), (2021, 29698::real)]
                 [(2019, 167), (2020, 203)] [(2020, 11800), (2021, 17000)]
                 [(2019, 1867), (2020, 2761), (2021, 5116)]))"
proof -
  have h: "distinct (years [(2019, 20156), (2020, 24996), (2021, 29698::real)])"
    "distinct (years [(2019, 167), (2020, 203::real)])"
    "distinct (years [(2020, 11800), (2021, 17000::real)])"
    "distinct (years [(2019, 1867), (2020, 2761), (2021, 5116::real)])"
    by (simp_all add: years_def)
  have i: "set (years [(2019, 20156), (2020, 24996), (2021, 29698::real)]) \<inter>
        set (years [(2019, 167), (2020, 203::real)]) \<inter>
        set (years [(2020, 11800), (2021, 17000::real)]) \<inter>
        set (years [(2019, 1867), (2020, 2761), (2021, 5116::real)]) = {2020}"
    by (auto simp: years_def)
  from merge_all_intersection [OF h] have
    "set (years (merge_all [(2019, 20156), (2020, 24996), (2021, 29698::real)]
                 [(2019, 167), (2020, 203)] [(2020, 11800), (2021, 17000)]
                 [(2019, 1867), (2020, 2761), (2021, 5116)])) = {2020}"
    and "distinct (years (merge_all [(2019, 20156), (2020, 24996), (2021, 29698::real)]
                 [(2019, 167), (2020, 203)] [(2020, 11800), (2021, 17000)]
                 [(2019, 1867), (2020, 2761), (2021, 5116)]))"
    unfolding i by blast+
  with h show ?thesis by blast
qed

text \<open>
  C3 (as amended). The merged rows follow the row order of the revenue table, the leftmost
  table of the merge: when the other three tables repeat no year, the years of the output
  are the years of the revenue table, in its order, that the other three tables have. So
  the output is ascending when the revenue table is, and it does not depend on the row
  order of the other three tables.
\<close>

theorem merge_all_order:
  assumes "distinct (years subs_df)" "distinct (years content_df)" "distinct (years income_df)"
    and "mset subs_df' = mset subs_df" "mset content_df' = mset content_df"
    "mset income_df' = mset income_df"
  shows "years (merge_all revenue_df subs_df content_df income_df) =
           filter (\<lambda>k. k \<in> set (years subs_df) \<and> k \<in> set (years content_df) \<and>
                       k \<in> set (years income_df)) (years revenue_df) \<and>
         (sorted (years revenue_df) \<longrightarrow>
            sorted (years (merge_all revenue_df subs_df content_df income_df))) \<and>
         merge_all revenue_df subs_df' content_df' income_df' =
           merge_all revenue_df subs_df content_df income_df"
proof (intro conjI)
  show "years (merge_all revenue_df subs_df content_df income_df) =
           filter (\<lambda>k. k \<in> set (years subs_df) \<and> k \<in> set (years content_df) \<and>
                       k \<in> set (years income_df)) (years revenue_df)"
    using assms(1-3) by (rule years_merge_all_filter)
  show "sorted (years revenue_df) \<longrightarrow>
            sorted (years (merge_all revenue_df subs_df content_df income_df))"
    by (simp add: merge_all_def sorted_years_merge_on_year)
  show "merge_all revenue_df subs_df' content_df' income_df' =
           merge_all revenue_df subs_df content_df income_df"
    using assms by (rule merge_all_perm)
qed

theorem merge_all_order_witness:
  "years (merge_all [(2021, 29698), (2020, 24996), (2019, 20156::real)]
            [(2020, 203), (2021, 221)] [(2020, 11800), (2021, 17000)]
            [(2020, 2761), (2021, 5116)]) = [2021, 2020] \<and>
   merge_all [(2021, 29698), (2020, 24996), (2019, 20156::real)]
            [(2021, 221), (2020, 203)] [(2021, 17000), (2020, 11800)]
            [(2021, 5116), (2020, 2761)] =
   merge_all [(2021, 29698), (2020, 24996), (2019, 20156::real)]
            [(2020, 203), (2021, 221)] [(2020, 11800), (2021, 17000)]
            [(2020, 2761), (2021, 5116)]"
proof -
  have d: "distinct (years [(2020, 203), (2021, 221::real)])"
    "distinct (years [(2020, 11800), (2021, 17000::real)])"
    "distinct (years [(2020, 2761), (2021, 5116::real)])"
    by (simp_all add: years_def)
  have m: "mset [(2021, 221), (2020, 203::real)] = mset [(2020::int, 203), (2021, 221)]"
    "mset [(2021, 17000), (2020, 11800::real)] = mset [(2020::int, 11800), (2021, 17000)]"
    "mset [(2021, 5116), (2020, 2761::real)] = mset [(2020::int, 2761), (2021, 5116)]"
    by simp_all
  have y: "filter (\<lambda>k. k \<in> set (years [(2020, 203), (2021, 221::real)]) \<and>
                   k \<in> set (years [(2020, 11800), (2021, 17000::real)]) \<and>
                   k \<in> set (years [(2020, 2761), (2021, 5116::real)]))
             (years [(2021, 29698), (2020, 24996), (2019, 20156::real)]) = [2021, 2020]"
    by (simp add: years_def)
  from merge_all_order [OF d m, of "[(2021, 29698), (2020, 24996), (2019, 20156::real)]"]
  show ?thesis unfolding y by blast
qed

text \<open>
  C3 as stated fails: the output is not sorted when the revenue table is not, and two runs
  on the same rows in a different order give different outputs.
\<close>

theorem merge_all_order_counterexample:
  "years (merge_all [(2021, 29698), (2020, 24996::real)] [(2020, 203), (2021, 221)]
            [(2020, 11800), (2021, 17000)] [(2020, 2761), (2021, 5116)]) = [2021, 2020] \<and>
   \<not> sorted [2021, 2020 :: int] \<and>
   mset [(2021 :: int, 29698), (2020, 24996::real)] = mset [(2020, 24996), (2021, 29698)] \<and>
   merge_all [(2021, 29698), (2020, 24996::real)] [(2020, 203), (2021, 221)]
            [(2020, 11800), (2021, 17000)] [(2020, 2761), (2021, 5116)] \<noteq>
   merge_all [(2020, 24996), (2021, 29698::real)] [(2020, 203), (2021, 221)]
            [(2020, 11800), (2021, 17000)] [(2020, 2761), (2021, 5116)]"
proof -
  have 1: "years (merge_all [(2021, 29698), (2020, 24996::real)] [(2020, 203), (2021, 221)]
            [(2020, 11800), (2021, 17000)] [(2020, 2761), (2021, 5116)]) = [2021, 2020]"
    by (simp add: merge_all_def merge_on_year_def years_def)
  have 2: "\<not> sorted [2021, 2020 :: int]" by simp
  have 3: "mset [(2021 :: int, 29698), (2020, 24996::real)] = mset [(2020, 24996), (2021, 29698)]"
    by simp
  have 4: "merge_all [(2021, 29698), (2020, 24996::real)] [(2020, 203), (2021, 221)]
            [(2020, 11800), (2021, 17000)] [(2020, 2761), (2021, 5116)] \<noteq>
   merge_all [(2020, 24996), (2021, 29698::real)] [(2020, 203), (2021, 221)]
            [(2020, 11800), (2021, 17000)] [(2020, 2761), (2021, 5116)]"
    by (simp add: merge_all_def merge_on_year_def)
  from 1 2 3 4 show ?thesis by blast
qed


section \<open>Properties of the cleaning\<close>


















lemmas float_text_simps =
  parse_float_text_def unsigned_text_def number_text_def fraction_text_def exponent_text_def
  digits_text_def nat_of_digits_def strip_def is_digit_def is_space_def to_lower_def




section \<open>Properties of the loading\<close>

lemma sheet_names_distinct:
  "revenue_sheet \<noteq> subs_sheet" "revenue_sheet \<noteq> content_sheet" "revenue_sheet \<noteq> income_sheet"
  "subs_sheet \<noteq> content_sheet" "subs_sheet \<noteq> income_sheet" "content_sheet \<noteq> income_sheet"
  by (simp_all add: revenue_sheet_def subs_sheet_def content_sheet_def income_sheet_def)

lemma set_columns_two:
  "set_columns [a, b] df =
     (if length (columns df) \<noteq> 2 then Inl (LengthMismatch (length (columns df)) 2)
      else Inr (df\<lparr>columns := [a, b]\<rparr>))"
  by (simp add: set_columns_def)

text \<open>
  C5 (as amended). When the workbook has the four sheets, loading succeeds exactly when
  every sheet has two columns; the labels become the canonical pair whatever the headers
  were, and the body is untouched. A sheet with fewer or with more than two columns makes
  the assignment of the two labels fail, for the first such sheet in the order revenue,
  subscribers, content spend, net income.
\<close>

theorem load_sheets_two_columns:
  assumes "xls revenue_sheet = Some revenue_df" "xls subs_sheet = Some subs_df"
    "xls content_sheet = Some content_df" "xls income_sheet = Some income_df"
  shows "load_sheets xls =
     (if length (columns revenue_df) \<noteq> 2 then Inl (LengthMismatch (length (columns revenue_df)) 2)
      else if length (columns subs_df) \<noteq> 2 then Inl (LengthMismatch (length (columns subs_df)) 2)
      else if length (columns content_df) \<noteq> 2 then Inl (LengthMismatch (length (columns content_df)) 2)
      else if length (columns income_df) \<noteq> 2 then Inl (LengthMismatch (length (columns income_df)) 2)
      else Inr (revenue_df\<lparr>columns := [''Year'', ''Revenue ($)'']\<rparr>,
                subs_df\<lparr>columns := [''Year'', ''Subscribers'']\<rparr>,
                content_df\<lparr>columns := [''Year'', ''Content Spend ($)'']\<rparr>,
                income_df\<lparr>columns := [''Year'', ''Net Income ($)'']\<rparr>))"
  using assms by (simp add: load_sheets_def parse_def and_then_def set_columns_two)

theorem load_sheets_two_columns_witness:
  "load_sheets
     [revenue_sheet \<mapsto> \<lparr>columns = [''year'', ''rev (USD)''], body = [(2020 :: int, Str ''$24,996'' :: real cell)]\<rparr>,
      subs_sheet \<mapsto> \<lparr>columns = [''Y'', ''Subs''], body = [(2020, Num 203)]\<rparr>,
      content_sheet \<mapsto> \<lparr>columns = [''Year'', ''''], body = [(2020, Num 11800)]\<rparr>,
      income_sheet \<mapsto> \<lparr>columns = [''a'', ''b''], body = [(2020, Num 2761)]\<rparr>]
   = Inr (\<lparr>columns = [''Year'', ''Revenue ($)''], body = [(2020, Str ''$24,996'')]\<rparr>,
          \<lparr>columns = [''Year'', ''Subscribers''], body = [(2020, Num 203)]\<rparr>,
          \<lparr>columns = [''Year'', ''Content Spend ($)''], body = [(2020, Num 11800)]\<rparr>,
          \<lparr>columns = [''Year'', ''Net Income ($)''], body = [(2020, Num 2761)]\<rparr>)"
  using load_sheets_two_columns [of
     "[revenue_sheet \<mapsto> \<lparr>columns = [''year'', ''rev (USD)''], body = [(2020 :: int, Str ''$24,996'' :: real cell)]\<rparr>,
      subs_sheet \<mapsto> \<lparr>columns = [''Y'', ''Subs''], body = [(2020, Num 203)]\<rparr>,
      content_sheet \<mapsto> \<lparr>columns = [''Year'', ''''], body = [(2020, Num 11800)]\<rparr>,
      income_sheet \<mapsto> \<lparr>columns = [''a'', ''b''], body = [(2020, Num 2761)]\<rparr>]"
     "\<lparr>columns = [''year'', ''rev (USD)''], body = [(2020 :: int, Str ''$24,996'' :: real cell)]\<rparr>"
     "\<lparr>columns = [''Y'', ''Subs''], body = [(2020, Num 203)]\<rparr>"
     "\<lparr>columns = [''Year'', ''''], body = [(2020, Num 11800)]\<rparr>"
     "\<lparr>columns = [''a'', ''b''], body = [(2020, Num 2761)]\<rparr>"]
  by (simp add: sheet_names_distinct)

text \<open>C5 as stated fails: a sheet with three columns does not load.\<close>

theorem load_sheets_three_columns_counterexample:
  "load_sheets
     [revenue_sheet \<mapsto> \<lparr>columns = [''Year'', ''Revenue'', ''Notes''], body = [(2020 :: int, Str ''$24,996'' :: real cell)]\<rparr>,
      subs_sheet \<mapsto> \<lparr>columns = [''Year'', ''Subs''], body = [(2020, Num 203)]\<rparr>,
      content_sheet \<mapsto> \<lparr>columns = [''Year'', ''Spend''], body = [(2020, Num 11800)]\<rparr>,
      income_sheet \<mapsto> \<lparr>columns = [''Year'', ''Income''], body = [(2020, Num 2761)]\<rparr>]
   = Inl (LengthMismatch 3 2)"
  by (simp add: load_sheets_def parse_def and_then_def set_columns_def sheet_names_distinct)


section \<open>Properties of the time series and of the forecast call\<close>



lemma run_forecast_fitted:
  "fit svc history = Inr model \<Longrightarrow>
   run_forecast svc history h =
     (case make_future_dataframe svc model (years_ahead h * 365) of
        Inl e \<Rightarrow> ([Fit history, MakeFuture (years_ahead h * 365)], Inl e)
      | Inr future \<Rightarrow>
          ([Fit history, MakeFuture (years_ahead h * 365), Predict future],
           predict svc model future))"
  by (simp add: run_forecast_def Let_def)




lemma fit_daily:
  "fit (daily_forecaster level) history =
     (if length history < 2 then Inl (ServiceError ''Dataframe has less than 2 non-NaN rows.'')
      else Inr (sort (remdups (map fst history))))"
  by (simp add: daily_forecaster_def)

lemma make_future_daily:
  "make_future_dataframe (daily_forecaster level) history_dates periods =
     Inr (history_dates @ days_after (last history_dates) (nat periods))"
  by (simp add: daily_forecaster_def)

lemma predict_daily:
  "predict (daily_forecaster level) history_dates future =
     Inr (map (\<lambda>d. \<lparr>ds = d, yhat = level, yhat_lower = level, yhat_upper = level\<rparr>) future)"
  by (simp add: daily_forecaster_def)

lemma fit_daily_two:
  "fit (daily_forecaster level) [((2019, 0), a), ((2020, 0), b)] = Inr [(2019, 0), (2020, 0)]"
  by (simp add: fit_daily)





lemma years_ahead_Horizon:
  "years_ahead (Horizon 1) = 1" "years_ahead (Horizon 5) = 5" "years_ahead (Horizon 10) = 10"
  by (simp_all add: Horizon_inverse)

lemma reconcile_example_workbook:
  "reconcile exact_ops example_workbook =
     Inr [(2019, ((20156, 167), 13900), 1867), (2020, ((24996, 203), 11800), 2761)]"
  by (simp add: example_workbook_def reconcile_def load_sheets_def parse_def set_columns_def
        and_then_def sheet_names_distinct clean_column_def clean_currency_def exact_ops_def
        exact_value_def float_text_simps merge_all_def merge_on_year_def)

lemma prophet_df_example:
  "prophet_df [(2019, ((20156, 167), 13900), 1867), (2020, ((24996, 203), 11800), 2761 :: real)] =
     Inr [((2019, 0), 20156), ((2020, 0), 24996)]"
  by (simp add: to_datetime_def and_then_def revenue_def)



section \<open>Properties of the insights\<close>



lemma sorted_group_years: "sorted (group_years rows)"
  by (simp add: group_years_def)



lemma future_forecast_Some:
  "future_forecast f (Some l) = filter (\<lambda>r. l < year_of (ds r)) f"
  by (simp add: future_forecast_def)






lemma idxmax_Nil: "idxmax ops [] = Inl ArgOfEmptySequence"
  by (simp add: idxmax_def)

lemma extract_insights_empty:
  assumes "future_forecast f latest = []"
  shows "extract_insights ops f latest = Inl ArgOfEmptySequence"
proof -
  have s: "annual_pred ops (future_forecast f latest) = []"
    using assms by (simp add: annual_pred_def group_years_def)
  have "next_year_line ops [] latest = Inr None"
    by (cases latest) (simp_all add: next_year_line_def years_def)
  then show ?thesis
    by (simp add: extract_insights_def s and_then_def idxmax_Nil)
qed



lemma days_after_same_year:
  "snd d + n < days_in_year (fst d) \<Longrightarrow> \<forall>x \<in> set (days_after d n). fst x = fst d"
proof (induction n arbitrary: d)
  case 0
  then show ?case by simp
next
  case (Suc n)
  then have nd: "next_day d = (fst d, snd d + 1)" by (simp add: next_day_def)
  have "\<forall>x \<in> set (days_after (next_day d) n). fst x = fst (next_day d)"
    using Suc.prems by (intro Suc.IH) (simp add: nd)
  then show ?case by (simp add: nd)
qed

lemma run_no_future_year:
  assumes "reconcile ops xls = Inr df" "prophet_df df = Inr history"
    "run_forecast svc history h = (calls, Inr forecast)"
    "extract_insights ops forecast (series_max (years df)) = Inl e"
  shows "run ops svc xls h = (calls, Inl e)"
  using assms by (simp add: run_def and_then_def)

text \<open>
  C10. When no row of the forecast is in a year after the latest known year, the insight
  step raises at the computation of the highest and lowest years, and a run whose forecast
  succeeded ends with that error.
\<close>

theorem extract_insights_no_future_year:
  assumes "\<forall>r \<in> set forecast. year_of (ds r) \<le> l"
  shows "extract_insights ops forecast (Some l) = Inl ArgOfEmptySequence \<and>
         (reconcile ops xls = Inr df \<and> prophet_df df = Inr history \<and>
          run_forecast svc history h = (calls, Inr forecast) \<and>
          series_max (years df) = Some l \<longrightarrow>
            run ops svc xls h = (calls, Inl ArgOfEmptySequence))"
proof -
  have "future_forecast forecast (Some l) = []"
    using assms by (auto simp: future_forecast_Some filter_empty_conv)
  then have e: "extract_insights ops forecast (Some l) = Inl ArgOfEmptySequence"
    by (rule extract_insights_empty)
  then show ?thesis by (auto intro: run_no_future_year)
qed

theorem extract_insights_no_future_year_witness:
  "run exact_ops (daily_forecaster 30000) example_workbook (Horizon 1) =
     ([Fit [((2019, 0), 20156), ((2020, 0), 24996)], MakeFuture 365,
       Predict ([(2019, 0), (2020, 0)] @ days_after (2020, 0) 365)],
      Inl ArgOfEmptySequence)"
proof -
  let ?df = "[(2019, ((20156, 167), 13900), 1867), (2020, ((24996, 203), 11800), 2761 :: real)]"
  let ?history = "[((2019, 0), 20156), ((2020, 0), 24996 :: real)]"
  let ?dates = "[(2019, 0), (2020, 0)] @ days_after (2020, 0) 365"
  let ?forecast = "map (\<lambda>d. \<lparr>ds = d, yhat = 30000 :: real, yhat_lower = 30000, yhat_upper = 30000\<rparr>) ?dates"
  have a: "(1 :: int) * 365 = 365" by simp
  have rf: "run_forecast (daily_forecaster 30000) ?history (Horizon 1) =
     ([Fit ?history, MakeFuture 365, Predict ?dates], Inr ?forecast)"
    unfolding run_forecast_fitted [OF fit_daily_two] make_future_daily predict_daily
      years_ahead_Horizon a
    by simp
  have sm: "series_max (years ?df) = Some 2020"
    by (simp add: years_def)
  have "\<forall>x \<in> set (days_after (2020, 0) 365). fst x = (2020 :: int)"
    using days_after_same_year [of "(2020, 0)" 365] by (simp add: days_in_year_def is_leap_def)
  then have yrs: "\<forall>r \<in> set ?forecast. year_of (ds r) \<le> 2020"
    by (auto simp: year_of_def)
  from extract_insights_no_future_year [OF yrs, of exact_ops example_workbook ?df ?history
      "daily_forecaster 30000" "Horizon 1" "[Fit ?history, MakeFuture 365, Predict ?dates]"]
    reconcile_example_workbook prophet_df_example rf sm
  show ?thesis by blast
qed

end
